theory Spec2Isabelle
  imports Main
begin

section \<open>Python values and exceptions\<close>

text \<open>
  The values \<open>json.loads\<close> can produce. A float is carried as mantissa and
  binary exponent, with the three non-finite values the Python decoder accepts; no
  handler inspects a number. A \<open>dict\<close> is the list of its items, read with
  \<open>map_of\<close>; a text is a \<open>string\<close>.
\<close>

datatype pyfloat = Finite int int | PosInfinity | NegInfinity | NaN

datatype pyval =
    PyNone
  | PyBool bool
  | PyInt int
  | PyFloat pyfloat
  | PyStr string
  | PyList "pyval list"
  | PyDict "(string \<times> pyval) list"

text \<open>
  The exceptions that can occur inside the handlers and at start-up, all subclasses of
  \<open>Exception\<close>. \<open>APIError\<close> stands for whatever the completion client raises
  (connection, authentication, rate limit), with its message. \<open>ValidationError\<close>
  carries the names of the fields that failed.
\<close>

datatype exn =
    RuntimeError string
  | APIError string
  | IndexError
  | TypeError
  | AttributeError
  | JSONDecodeError string
  | ValidationError "string list"

datatype HTTPException = HTTPException (status_code: nat) (detail: string)

section \<open>Pydantic models\<close>

record MessageRequest =
  message :: string

record MessageAnalysisResponse =
  classification :: string
  summary :: string
  tasks :: "string list"
  suggested_reply :: string

record RewriteRequest =
  original_message :: string
  base_reply :: string
  style :: string

record RewriteResponse =
  rewritten_reply :: string

text \<open>
  Validation of a field declared \<open>str\<close>, as pydantic 2 does it: of the values
  above only a \<open>str\<close> is accepted, and it is kept as it is. (Pydantic 1 would also
  turn a number into its text; \<open>None\<close>, a list and a \<open>dict\<close> are rejected by
  both.)
\<close>

fun validate_str :: "pyval \<Rightarrow> string option" where
  "validate_str (PyStr s) = Some s"
| "validate_str _ = None"

text \<open>
  Validation of a field declared \<open>List[str]\<close>: a list, each element of which
  validates as \<open>str\<close>.
\<close>

fun validate_str_items :: "pyval list \<Rightarrow> string list option" where
  "validate_str_items [] = Some []"
| "validate_str_items (v # vs) =
     (case validate_str v of
        None \<Rightarrow> None
      | Some s \<Rightarrow> (case validate_str_items vs of None \<Rightarrow> None | Some ss \<Rightarrow> Some (s # ss)))"

fun validate_str_list :: "pyval \<Rightarrow> string list option" where
  "validate_str_list (PyList vs) = validate_str_items vs"
| "validate_str_list _ = None"

definition failed_field :: "string \<Rightarrow> 'a option \<Rightarrow> string list" where
  "failed_field name r = (case r of None \<Rightarrow> [name] | Some _ \<Rightarrow> [])"

text \<open>
  The constructor \<open>MessageAnalysisResponse(classification=..., summary=..., tasks=...,
  suggested_reply=...)\<close>: every field is validated, and one \<open>ValidationError\<close>
  reports all the fields that failed.
\<close>

definition new_MessageAnalysisResponse ::
  "pyval \<Rightarrow> pyval \<Rightarrow> pyval \<Rightarrow> pyval \<Rightarrow> exn + MessageAnalysisResponse" where
  "new_MessageAnalysisResponse c s t r =
     (case (validate_str c, validate_str s, validate_str_list t, validate_str r) of
        (Some c', Some s', Some t', Some r') \<Rightarrow>
          Inr \<lparr>classification = c', summary = s', tasks = t', suggested_reply = r'\<rparr>
      | _ \<Rightarrow>
          Inl (ValidationError
                (failed_field ''classification'' (validate_str c) @
                 failed_field ''summary'' (validate_str s) @
                 failed_field ''tasks'' (validate_str_list t) @
                 failed_field ''suggested_reply'' (validate_str r))))"

definition new_RewriteResponse :: "pyval \<Rightarrow> exn + RewriteResponse" where
  "new_RewriteResponse w =
     (case validate_str w of
        Some w' \<Rightarrow> Inr \<lparr>rewritten_reply = w'\<rparr>
      | None \<Rightarrow> Inl (ValidationError [''rewritten_reply'']))"

section \<open>Start-up\<close>

text \<open>
  \<open>load_dotenv()\<close> adds the variables of the \<open>.env\<close> file to the process
  environment; a variable the environment already has keeps its value.
\<close>

definition load_dotenv :: "(string \<rightharpoonup> string) \<Rightarrow> (string \<rightharpoonup> string) \<Rightarrow> (string \<rightharpoonup> string)" where
  "load_dotenv dotenv environ = dotenv ++ environ"

datatype OpenAI = OpenAI (api_key: string)

text \<open>
  What importing the module leaves behind: the two globals, and the clients constructed
  on the way, in order.
\<close>

record module_globals =
  OPENAI_API_KEY :: string
  client :: OpenAI
  constructed :: "OpenAI list"

text \<open>
  Lines 13 to 19. \<open>not OPENAI_API_KEY\<close> is true of \<open>None\<close> and of the empty
  text.
\<close>

definition module_init :: "(string \<rightharpoonup> string) \<Rightarrow> (string \<rightharpoonup> string) \<Rightarrow> exn + module_globals" where
  "module_init dotenv environ =
     (case load_dotenv dotenv environ ''OPENAI_API_KEY'' of
        None \<Rightarrow> Inl (RuntimeError ''OPENAI_API_KEY is not set in .env'')
      | Some k \<Rightarrow>
          if k = [] then Inl (RuntimeError ''OPENAI_API_KEY is not set in .env'')
          else Inr \<lparr>OPENAI_API_KEY = k, client = OpenAI k, constructed = [OpenAI k]\<rparr>)"

section \<open>The completion service and the JSON library\<close>

text \<open>
  The two system prompts are constants of the module that no handler reads into; they
  are carried by name.
\<close>

datatype content = ANALYSIS_SYSTEM_PROMPT | REWRITE_SYSTEM_PROMPT | Text string

record chat_message =
  role :: string
  content :: content

record create_args =
  model :: string
  response_format :: "(string \<times> string) list"
  messages :: "chat_message list"

datatype choice = Choice (message_content: "string option")

datatype completion = ChatCompletion (choices: "choice list")

text \<open>
  What the handlers call and do not define: the completion service behind
  \<open>client.chat.completions.create\<close>, which answers or raises; \<open>json.loads\<close>,
  which returns a value or raises; \<open>json.dumps\<close>.
\<close>

record external =
  chat_completions_create :: "OpenAI \<Rightarrow> create_args \<Rightarrow> exn + completion"
  json_loads :: "string \<Rightarrow> exn + pyval"
  json_dumps :: "pyval \<Rightarrow> string"

text \<open>\<open>completion.choices[0].message.content\<close>.\<close>

definition first_content :: "completion \<Rightarrow> exn + string option" where
  "first_content c =
     (case choices c of [] \<Rightarrow> Inl IndexError | ch # _ \<Rightarrow> Inr (message_content ch))"

text \<open>\<open>json.loads(content)\<close>, where \<open>content\<close> may be \<open>None\<close>.\<close>

definition loads_content :: "external \<Rightarrow> string option \<Rightarrow> exn + pyval" where
  "loads_content E c = (case c of None \<Rightarrow> Inl TypeError | Some s \<Rightarrow> json_loads E s)"

text \<open>\<open>data.get(key, default)\<close>: only a \<open>dict\<close> has the method.\<close>

definition dict_get :: "pyval \<Rightarrow> string \<Rightarrow> pyval \<Rightarrow> exn + pyval" where
  "dict_get data key dflt =
     (case data of
        PyDict kvs \<Rightarrow> Inr (case map_of kvs key of Some v \<Rightarrow> v | None \<Rightarrow> dflt)
      | _ \<Rightarrow> Inl AttributeError)"

fun isinstance_list :: "pyval \<Rightarrow> bool" where
  "isinstance_list (PyList _) = True"
| "isinstance_list _ = False"

section \<open>Routes\<close>

text \<open>
  What a handler does, as seen from outside: the requests it sent to the completion
  service, the lines it printed (the prefix and the exception), and what it returned or
  raised.
\<close>

record 'r outcome =
  sent :: "create_args list"
  printed :: "(string \<times> exn) list"
  returned :: "HTTPException + 'r"

definition analysis_args :: "MessageRequest \<Rightarrow> create_args" where
  "analysis_args request =
     \<lparr>model = ''gpt-4.1-mini'',
      response_format = [(''type'', ''json_object'')],
      messages =
        [\<lparr>role = ''system'', content = ANALYSIS_SYSTEM_PROMPT\<rparr>,
         \<lparr>role = ''user'', content = Text (message request)\<rparr>]\<rparr>"

text \<open>Lines 164 to 180: from the completion to the response model.\<close>

definition analysis_of_completion :: "external \<Rightarrow> completion \<Rightarrow> exn + MessageAnalysisResponse" where
  "analysis_of_completion E completion =
     (case first_content completion of Inl e \<Rightarrow> Inl e | Inr c \<Rightarrow>
      case loads_content E c of Inl e \<Rightarrow> Inl e | Inr data \<Rightarrow>
      case dict_get data ''classification'' (PyStr ''Informational'') of Inl e \<Rightarrow> Inl e | Inr classification' \<Rightarrow>
      case dict_get data ''summary'' (PyStr '''') of Inl e \<Rightarrow> Inl e | Inr summary' \<Rightarrow>
      case dict_get data ''tasks'' (PyList []) of Inl e \<Rightarrow> Inl e | Inr tasks' \<Rightarrow>
      case dict_get data ''suggested_reply'' (PyStr '''') of Inl e \<Rightarrow> Inl e | Inr suggested_reply' \<Rightarrow>
      new_MessageAnalysisResponse classification' summary'
        (if \<not> isinstance_list tasks' then PyList [] else tasks') suggested_reply')"

text \<open>The body of the \<open>try\<close> of \<open>analyze_message\<close>.\<close>

definition analyze_message_try ::
  "external \<Rightarrow> OpenAI \<Rightarrow> MessageRequest \<Rightarrow> exn + MessageAnalysisResponse" where
  "analyze_message_try E cl request =
     (case chat_completions_create E cl (analysis_args request) of
        Inl e \<Rightarrow> Inl e
      | Inr completion \<Rightarrow> analysis_of_completion E completion)"

definition analyze_message ::
  "external \<Rightarrow> OpenAI \<Rightarrow> MessageRequest \<Rightarrow> MessageAnalysisResponse outcome" where
  "analyze_message E cl request =
     (case analyze_message_try E cl request of
        Inr response \<Rightarrow>
          \<lparr>sent = [analysis_args request], printed = [], returned = Inr response\<rparr>
      | Inl e \<Rightarrow>
          \<lparr>sent = [analysis_args request],
           printed = [(''Error in /analyze_message:'', e)],
           returned = Inl (HTTPException 500 ''Error analyzing message'')\<rparr>)"

text \<open>Lines 193 to 197: the payload, a \<open>dict\<close> of three texts.\<close>

definition payload :: "RewriteRequest \<Rightarrow> pyval" where
  "payload request =
     PyDict [(''original_message'', PyStr (original_message request)),
             (''base_reply'', PyStr (base_reply request)),
             (''style'', PyStr (style request))]"

definition rewrite_args :: "external \<Rightarrow> RewriteRequest \<Rightarrow> create_args" where
  "rewrite_args E request =
     \<lparr>model = ''gpt-4.1-mini'',
      response_format = [(''type'', ''json_object'')],
      messages =
        [\<lparr>role = ''system'', content = REWRITE_SYSTEM_PROMPT\<rparr>,
         \<lparr>role = ''user'', content = Text (json_dumps E (payload request))\<rparr>]\<rparr>"

text \<open>Lines 208 to 212.\<close>

definition rewrite_of_completion ::
  "external \<Rightarrow> RewriteRequest \<Rightarrow> completion \<Rightarrow> exn + RewriteResponse" where
  "rewrite_of_completion E request completion =
     (case first_content completion of Inl e \<Rightarrow> Inl e | Inr c \<Rightarrow>
      case loads_content E c of Inl e \<Rightarrow> Inl e | Inr data \<Rightarrow>
      case dict_get data ''rewritten_reply'' (PyStr (base_reply request)) of Inl e \<Rightarrow> Inl e | Inr rewritten \<Rightarrow>
      new_RewriteResponse rewritten)"

definition rewrite_reply_try ::
  "external \<Rightarrow> OpenAI \<Rightarrow> RewriteRequest \<Rightarrow> exn + RewriteResponse" where
  "rewrite_reply_try E cl request =
     (case chat_completions_create E cl (rewrite_args E request) of
        Inl e \<Rightarrow> Inl e
      | Inr completion \<Rightarrow> rewrite_of_completion E request completion)"

definition rewrite_reply ::
  "external \<Rightarrow> OpenAI \<Rightarrow> RewriteRequest \<Rightarrow> RewriteResponse outcome" where
  "rewrite_reply E cl request =
     (case rewrite_reply_try E cl request of
        Inr response \<Rightarrow>
          \<lparr>sent = [rewrite_args E request], printed = [], returned = Inr response\<rparr>
      | Inl e \<Rightarrow>
          \<lparr>sent = [rewrite_args E request],
           printed = [(''Error in /rewrite_reply:'', e)],
           returned = Inl (HTTPException 500 ''Error rewriting reply'')\<rparr>)"

section \<open>Upstream answers\<close>

text \<open>
  The vocabulary of the properties below. \<open>replies_with\<close>: the completion
  service answered the request, and the content of its first choice is the given text.
  \<open>answers\<close>: moreover \<open>json.loads\<close> decodes that text to the given value; an
  upstream JSON object is \<open>answers E cl args (PyDict kvs)\<close>.
\<close>

definition replies_with :: "external \<Rightarrow> OpenAI \<Rightarrow> create_args \<Rightarrow> string \<Rightarrow> bool" where
  "replies_with E cl args answer =
     (case chat_completions_create E cl args of
        Inl e \<Rightarrow> False
      | Inr completion \<Rightarrow> first_content completion = Inr (Some answer))"

definition answers :: "external \<Rightarrow> OpenAI \<Rightarrow> create_args \<Rightarrow> pyval \<Rightarrow> bool" where
  "answers E cl args data =
     (case chat_completions_create E cl args of
        Inl e \<Rightarrow> False
      | Inr completion \<Rightarrow>
          (case first_content completion of
             Inr (Some answer) \<Rightarrow> json_loads E answer = Inr data
           | _ \<Rightarrow> False))"

text \<open>
  What \<open>data.get(key, default)\<close> returns on the \<open>dict\<close> with items \<open>kvs\<close>,
  and the value of \<open>tasks\<close> after line 173.
\<close>

definition field_or :: "(string \<times> pyval) list \<Rightarrow> string \<Rightarrow> pyval \<Rightarrow> pyval" where
  "field_or kvs key dflt = (case map_of kvs key of Some v \<Rightarrow> v | None \<Rightarrow> dflt)"

definition normalized_tasks :: "(string \<times> pyval) list \<Rightarrow> pyval" where
  "normalized_tasks kvs =
     (if \<not> isinstance_list (field_or kvs ''tasks'' (PyList [])) then PyList []
      else field_or kvs ''tasks'' (PyList []))"

text \<open>
  Shapes of upstream values: a text; a list of texts; a field that is a text where the
  object has it; a \<open>tasks\<close> field that, where it is a list, is a list of texts.
\<close>

fun is_text :: "pyval \<Rightarrow> bool" where
  "is_text (PyStr _) = True"
| "is_text _ = False"

fun is_text_list :: "pyval \<Rightarrow> bool" where
  "is_text_list (PyList vs) = list_all is_text vs"
| "is_text_list _ = False"

definition text_if_present :: "(string \<times> pyval) list \<Rightarrow> string \<Rightarrow> bool" where
  "text_if_present kvs key = (case map_of kvs key of None \<Rightarrow> True | Some v \<Rightarrow> is_text v)"

definition tasks_acceptable :: "(string \<times> pyval) list \<Rightarrow> bool" where
  "tasks_acceptable kvs =
     (case map_of kvs ''tasks'' of
        Some (PyList vs) \<Rightarrow> list_all is_text vs
      | _ \<Rightarrow> True)"

section \<open>Test doubles\<close>

text \<open>
  \<open>answering v\<close>: a completion service that answers every request with one choice
  holding one fixed text, and a decoder that decodes that text to \<open>v\<close> and rejects
  every other text. \<open>answering_garbage\<close>: the service answers with a text the
  decoder rejects. \<open>unreachable\<close>: the service raises. The encoder of all three
  returns the empty text.
\<close>

definition answering :: "pyval \<Rightarrow> external" where
  "answering v =
     \<lparr>chat_completions_create = (\<lambda>cl args. Inr (ChatCompletion [Choice (Some ''upstream answer'')])),
      json_loads = (\<lambda>s. if s = ''upstream answer'' then Inr v
                         else Inl (JSONDecodeError ''Expecting value'')),
      json_dumps = (\<lambda>p. '''')\<rparr>"

definition answering_garbage :: external where
  "answering_garbage =
     \<lparr>chat_completions_create = (\<lambda>cl args. Inr (ChatCompletion [Choice (Some ''not json'')])),
      json_loads = (\<lambda>s. Inl (JSONDecodeError ''Expecting value'')),
      json_dumps = (\<lambda>p. '''')\<rparr>"

definition unreachable :: external where
  "unreachable =
     \<lparr>chat_completions_create = (\<lambda>cl args. Inl (APIError ''Connection error.'')),
      json_loads = (\<lambda>s. Inl (JSONDecodeError ''Expecting value'')),
      json_dumps = (\<lambda>p. '''')\<rparr>"

definition a_client :: OpenAI where
  "a_client = OpenAI ''sk-test''"

definition a_message :: MessageRequest where
  "a_message = \<lparr>message = ''Can you review the API docs before the stand-up?''\<rparr>"

definition a_rewrite :: RewriteRequest where
  "a_rewrite =
     \<lparr>original_message = ''Can you review the API docs before the stand-up?'',
      base_reply = ''Sure, I will review them today.'',
      style = ''short''\<rparr>"

definition another_rewrite :: RewriteRequest where
  "another_rewrite =
     \<lparr>original_message = ''Any update on the docs?'',
      base_reply = ''Sure, I will review them today.'',
      style = ''sarcastic''\<rparr>"

text \<open>
  \<open>encode_texts\<close>: an encoder that writes the items of a \<open>dict\<close> of texts one
  after the other, each as key, equals sign, text and semicolon. \<open>echoing\<close>: a
  completion service that answers a request of two turns with the text of its user turn
  and raises on any other request, beside a decoder that wraps every text as the
  \<open>rewritten_reply\<close> of an object, and \<open>encode_texts\<close> as encoder; what it is sent
  is what comes back.
\<close>

definition encode_texts :: "pyval \<Rightarrow> string" where
  "encode_texts p =
     (case p of
        PyDict kvs \<Rightarrow>
          concat (map (\<lambda>(k, v). k @ ''='' @ (case v of PyStr s \<Rightarrow> s | _ \<Rightarrow> ''?'') @ '';'') kvs)
      | _ \<Rightarrow> '''')"

definition echoing :: external where
  "echoing =
     \<lparr>chat_completions_create =
        (\<lambda>cl args.
           case messages args of
             [m1, m2] \<Rightarrow>
               (case content m2 of
                  Text t \<Rightarrow> Inr (ChatCompletion [Choice (Some t)])
                | _ \<Rightarrow> Inl (APIError ''Bad request''))
           | _ \<Rightarrow> Inl (APIError ''Bad request'')),
      json_loads = (\<lambda>s. Inr (PyDict [(''rewritten_reply'', PyStr s)])),
      json_dumps = encode_texts\<rparr>"

section \<open>Validation, decoding and the two outcomes\<close>

lemma validate_str_Some_iff: "validate_str v = Some s \<longleftrightarrow> v = PyStr s"
  by (cases v) auto

lemma validate_str_None_iff: "validate_str v = None \<longleftrightarrow> \<not> is_text v"
  by (cases v) auto

lemma validate_str_items_map: "validate_str_items (map PyStr ss) = Some ss"
  by (induction ss) auto

lemma validate_str_items_Some_D: "validate_str_items vs = Some ss \<Longrightarrow> vs = map PyStr ss"
proof (induction vs arbitrary: ss)
  case Nil
  then show ?case by simp
next
  case (Cons v vs)
  then show ?case
    by (cases v) (auto split: option.splits)
qed

lemma validate_str_items_Some_iff: "validate_str_items vs = Some ss \<longleftrightarrow> vs = map PyStr ss"
  using validate_str_items_Some_D validate_str_items_map by blast

lemma validate_str_items_None_iff: "validate_str_items vs = None \<longleftrightarrow> \<not> list_all is_text vs"
proof (induction vs)
  case Nil
  then show ?case by simp
next
  case (Cons v vs)
  then show ?case
    by (cases v) (auto split: option.splits)
qed

lemma answersD:
  assumes "answers E cl args data"
  obtains completion answer where
    "chat_completions_create E cl args = Inr completion"
    "first_content completion = Inr (Some answer)"
    "json_loads E answer = Inr data"
  using assms unfolding answers_def
  by (simp split: sum.splits option.splits)

lemma dict_get_PyDict: "dict_get (PyDict kvs) key dflt = Inr (field_or kvs key dflt)"
  by (simp add: dict_get_def field_or_def)

lemma analysis_of_completion_dict:
  assumes "first_content completion = Inr (Some answer)"
    and "json_loads E answer = Inr (PyDict kvs)"
  shows "analysis_of_completion E completion =
     new_MessageAnalysisResponse
       (field_or kvs ''classification'' (PyStr ''Informational''))
       (field_or kvs ''summary'' (PyStr ''''))
       (if \<not> isinstance_list (field_or kvs ''tasks'' (PyList [])) then PyList []
        else field_or kvs ''tasks'' (PyList []))
       (field_or kvs ''suggested_reply'' (PyStr ''''))"
  unfolding analysis_of_completion_def
  by (simp only: assms loads_content_def dict_get_PyDict sum.case option.case)

lemma analyze_try_answers:
  assumes "answers E cl (analysis_args request) (PyDict kvs)"
  shows "analyze_message_try E cl request =
     new_MessageAnalysisResponse
       (field_or kvs ''classification'' (PyStr ''Informational''))
       (field_or kvs ''summary'' (PyStr ''''))
       (if \<not> isinstance_list (field_or kvs ''tasks'' (PyList [])) then PyList []
        else field_or kvs ''tasks'' (PyList []))
       (field_or kvs ''suggested_reply'' (PyStr ''''))"
proof -
  from assms obtain completion answer where
    c: "chat_completions_create E cl (analysis_args request) = Inr completion"
    and f: "first_content completion = Inr (Some answer)"
    and l: "json_loads E answer = Inr (PyDict kvs)"
    by (rule answersD)
  show ?thesis
    unfolding analyze_message_try_def
    by (simp only: c sum.case analysis_of_completion_dict [OF f l])
qed

lemma rewrite_of_completion_dict:
  assumes "first_content completion = Inr (Some answer)"
    and "json_loads E answer = Inr (PyDict kvs)"
  shows "rewrite_of_completion E request completion =
     new_RewriteResponse (field_or kvs ''rewritten_reply'' (PyStr (base_reply request)))"
  unfolding rewrite_of_completion_def
  by (simp only: assms loads_content_def dict_get_PyDict sum.case option.case)

lemma rewrite_try_answers:
  assumes "answers E cl (rewrite_args E request) (PyDict kvs)"
  shows "rewrite_reply_try E cl request =
     new_RewriteResponse (field_or kvs ''rewritten_reply'' (PyStr (base_reply request)))"
proof -
  from assms obtain completion answer where
    c: "chat_completions_create E cl (rewrite_args E request) = Inr completion"
    and f: "first_content completion = Inr (Some answer)"
    and l: "json_loads E answer = Inr (PyDict kvs)"
    by (rule answersD)
  show ?thesis
    unfolding rewrite_reply_try_def
    by (simp only: c sum.case rewrite_of_completion_dict [OF f l])
qed

lemma analyze_returned:
  "returned (analyze_message E cl request) =
     (case analyze_message_try E cl request of
        Inl e \<Rightarrow> Inl (HTTPException 500 ''Error analyzing message'')
      | Inr r \<Rightarrow> Inr r)"
  by (simp add: analyze_message_def split: sum.splits)

lemma rewrite_returned:
  "returned (rewrite_reply E cl request) =
     (case rewrite_reply_try E cl request of
        Inl e \<Rightarrow> Inl (HTTPException 500 ''Error rewriting reply'')
      | Inr r \<Rightarrow> Inr r)"
  by (simp add: rewrite_reply_def split: sum.splits)

lemma new_analysis_Inr_iff:
  "new_MessageAnalysisResponse c s t r = Inr x \<longleftrightarrow>
     c = PyStr (classification x) \<and> s = PyStr (summary x) \<and>
     t = PyList (map PyStr (tasks x)) \<and> r = PyStr (suggested_reply x)"
proof (cases "validate_str c")
  case None
  then show ?thesis
    by (auto simp: new_MessageAnalysisResponse_def)
next
  case c: (Some c')
  show ?thesis
  proof (cases "validate_str s")
    case None
    then show ?thesis
      by (auto simp: new_MessageAnalysisResponse_def c)
  next
    case s: (Some s')
    show ?thesis
    proof (cases "validate_str_list t")
      case None
      then show ?thesis
        by (auto simp: new_MessageAnalysisResponse_def c s validate_str_items_map)
    next
      case t: (Some t')
      then have t_eq: "t = PyList (map PyStr t')"
        by (cases t) (simp_all add: validate_str_items_Some_iff)
      show ?thesis
      proof (cases "validate_str r")
        case None
        then show ?thesis
          by (auto simp: new_MessageAnalysisResponse_def c s t)
      next
        case r: (Some r')
        from c s r have "c = PyStr c'" "s = PyStr s'" "r = PyStr r'"
          by (simp_all add: validate_str_Some_iff)
        then show ?thesis
          using t_eq
          by (cases x) (auto simp: new_MessageAnalysisResponse_def validate_str_items_map inj_on_def dest: map_inj_on)
      qed
    qed
  qed
qed

lemma validate_str_list_None_iff: "validate_str_list t = None \<longleftrightarrow> \<not> is_text_list t"
  by (cases t) (simp_all add: validate_str_items_None_iff)

lemma new_analysis_failure:
  assumes "\<not> (is_text c \<and> is_text s \<and> is_text_list t \<and> is_text r)"
  shows "\<exists>fs. new_MessageAnalysisResponse c s t r = Inl (ValidationError fs)"
  using assms
  by (auto simp: new_MessageAnalysisResponse_def validate_str_None_iff [symmetric]
        validate_str_list_None_iff [symmetric] split: option.splits)

lemma new_analysis_success:
  assumes "is_text c" "is_text s" "is_text_list t" "is_text r"
  shows "\<exists>x. new_MessageAnalysisResponse c s t r = Inr x"
proof -
  from assms obtain c' s' t' r' where
    "validate_str c = Some c'" "validate_str s = Some s'"
    "validate_str_list t = Some t'" "validate_str r = Some r'"
    using validate_str_None_iff validate_str_list_None_iff by (metis not_Some_eq)
  then show ?thesis
    by (simp add: new_MessageAnalysisResponse_def)
qed

lemma new_rewrite_failure:
  "\<not> is_text w \<Longrightarrow> new_RewriteResponse w = Inl (ValidationError [''rewritten_reply''])"
  by (cases w) (simp_all add: new_RewriteResponse_def)

lemma is_text_field_or: "is_text (field_or kvs key (PyStr d)) \<longleftrightarrow> text_if_present kvs key"
  by (simp add: field_or_def text_if_present_def split: option.splits)

lemma is_text_list_normalized_tasks: "is_text_list (normalized_tasks kvs) \<longleftrightarrow> tasks_acceptable kvs"
proof (cases "map_of kvs ''tasks''")
  case None
  then show ?thesis
    by (simp add: normalized_tasks_def field_or_def tasks_acceptable_def)
next
  case (Some v)
  then show ?thesis
    by (cases v) (simp_all add: normalized_tasks_def field_or_def tasks_acceptable_def)
qed

lemma analyze_try_normalized:
  assumes "answers E cl (analysis_args request) (PyDict kvs)"
  shows "analyze_message_try E cl request =
     new_MessageAnalysisResponse
       (field_or kvs ''classification'' (PyStr ''Informational''))
       (field_or kvs ''summary'' (PyStr ''''))
       (normalized_tasks kvs)
       (field_or kvs ''suggested_reply'' (PyStr ''''))"
  unfolding normalized_tasks_def by (rule analyze_try_answers [OF assms])

lemma analyze_succeeds_iff:
  assumes "answers E cl (analysis_args request) (PyDict kvs)"
  shows "(\<exists>r. returned (analyze_message E cl request) = Inr r) \<longleftrightarrow>
     text_if_present kvs ''classification'' \<and> text_if_present kvs ''summary'' \<and>
     tasks_acceptable kvs \<and> text_if_present kvs ''suggested_reply''"
proof
  assume "\<exists>r. returned (analyze_message E cl request) = Inr r"
  then obtain r where "analyze_message_try E cl request = Inr r"
    by (auto simp: analyze_returned split: sum.splits)
  then have ok: "new_MessageAnalysisResponse
       (field_or kvs ''classification'' (PyStr ''Informational''))
       (field_or kvs ''summary'' (PyStr ''''))
       (normalized_tasks kvs)
       (field_or kvs ''suggested_reply'' (PyStr '''')) = Inr r"
    by (simp only: analyze_try_normalized [OF assms])
  show "text_if_present kvs ''classification'' \<and> text_if_present kvs ''summary'' \<and>
     tasks_acceptable kvs \<and> text_if_present kvs ''suggested_reply''"
  proof (rule ccontr)
    assume "\<not> ?thesis"
    then have "\<not> (is_text (field_or kvs ''classification'' (PyStr ''Informational'')) \<and>
        is_text (field_or kvs ''summary'' (PyStr '''')) \<and>
        is_text_list (normalized_tasks kvs) \<and>
        is_text (field_or kvs ''suggested_reply'' (PyStr '''')))"
      by (simp add: is_text_field_or is_text_list_normalized_tasks)
    from new_analysis_failure [OF this] ok show False
      by auto
  qed
next
  assume "text_if_present kvs ''classification'' \<and> text_if_present kvs ''summary'' \<and>
     tasks_acceptable kvs \<and> text_if_present kvs ''suggested_reply''"
  then have "is_text (field_or kvs ''classification'' (PyStr ''Informational''))"
      "is_text (field_or kvs ''summary'' (PyStr ''''))"
      "is_text_list (normalized_tasks kvs)"
      "is_text (field_or kvs ''suggested_reply'' (PyStr ''''))"
    by (simp_all only: is_text_field_or is_text_list_normalized_tasks)
  from new_analysis_success [OF this] obtain x where
    "analyze_message_try E cl request = Inr x"
    by (auto simp only: analyze_try_normalized [OF assms])
  then show "\<exists>r. returned (analyze_message E cl request) = Inr r"
    by (simp add: analyze_returned)
qed

lemma analyze_returned_Inr_D:
  assumes "answers E cl (analysis_args request) (PyDict kvs)"
    and "returned (analyze_message E cl request) = Inr r"
  shows "field_or kvs ''classification'' (PyStr ''Informational'') = PyStr (classification r)"
    and "field_or kvs ''summary'' (PyStr '''') = PyStr (summary r)"
    and "normalized_tasks kvs = PyList (map PyStr (tasks r))"
    and "field_or kvs ''suggested_reply'' (PyStr '''') = PyStr (suggested_reply r)"
proof -
  from assms(2) have "analyze_message_try E cl request = Inr r"
    by (auto simp: analyze_returned split: sum.splits)
  then have "new_MessageAnalysisResponse
       (field_or kvs ''classification'' (PyStr ''Informational''))
       (field_or kvs ''summary'' (PyStr ''''))
       (normalized_tasks kvs)
       (field_or kvs ''suggested_reply'' (PyStr '''')) = Inr r"
    by (simp only: analyze_try_normalized [OF assms(1)])
  then show "field_or kvs ''classification'' (PyStr ''Informational'') = PyStr (classification r)"
    and "field_or kvs ''summary'' (PyStr '''') = PyStr (summary r)"
    and "normalized_tasks kvs = PyList (map PyStr (tasks r))"
    and "field_or kvs ''suggested_reply'' (PyStr '''') = PyStr (suggested_reply r)"
    by (simp_all only: new_analysis_Inr_iff)
qed

lemma field_or_missing: "map_of kvs key = None \<Longrightarrow> field_or kvs key d = d"
  by (simp add: field_or_def)

lemma field_or_present: "map_of kvs key = Some v \<Longrightarrow> field_or kvs key d = v"
  by (simp add: field_or_def)

lemma normalized_tasks_missing: "map_of kvs ''tasks'' = None \<Longrightarrow> normalized_tasks kvs = PyList []"
  by (simp add: normalized_tasks_def field_or_def)

lemma normalized_tasks_non_list:
  "map_of kvs ''tasks'' = Some v \<Longrightarrow> \<not> isinstance_list v \<Longrightarrow> normalized_tasks kvs = PyList []"
  by (simp add: normalized_tasks_def field_or_def)

lemma normalized_tasks_list:
  "map_of kvs ''tasks'' = Some (PyList vs) \<Longrightarrow> normalized_tasks kvs = PyList vs"
  by (simp add: normalized_tasks_def field_or_def)

lemma replies_withD:
  assumes "replies_with E cl args answer"
  obtains completion where
    "chat_completions_create E cl args = Inr completion"
    "first_content completion = Inr (Some answer)"
  using assms unfolding replies_with_def
  by (simp split: sum.splits)

lemma analyze_message_Inr:
  "analyze_message_try E cl request = Inr r \<Longrightarrow>
   analyze_message E cl request =
     \<lparr>sent = [analysis_args request], printed = [], returned = Inr r\<rparr>"
  by (simp add: analyze_message_def)

lemma analyze_message_Inl:
  "analyze_message_try E cl request = Inl e \<Longrightarrow>
   analyze_message E cl request =
     \<lparr>sent = [analysis_args request],
      printed = [(''Error in /analyze_message:'', e)],
      returned = Inl (HTTPException 500 ''Error analyzing message'')\<rparr>"
  by (simp add: analyze_message_def)

lemma rewrite_reply_Inr:
  "rewrite_reply_try E cl request = Inr r \<Longrightarrow>
   rewrite_reply E cl request =
     \<lparr>sent = [rewrite_args E request], printed = [], returned = Inr r\<rparr>"
  by (simp add: rewrite_reply_def)

lemma rewrite_reply_Inl:
  "rewrite_reply_try E cl request = Inl e \<Longrightarrow>
   rewrite_reply E cl request =
     \<lparr>sent = [rewrite_args E request],
      printed = [(''Error in /rewrite_reply:'', e)],
      returned = Inl (HTTPException 500 ''Error rewriting reply'')\<rparr>"
  by (simp add: rewrite_reply_def)

lemma analyze_try_invalid_json:
  assumes "replies_with E cl (analysis_args request) answer"
    and "json_loads E answer = Inl e"
  shows "analyze_message_try E cl request = Inl e"
proof -
  from assms(1) obtain completion where
    c: "chat_completions_create E cl (analysis_args request) = Inr completion"
    and f: "first_content completion = Inr (Some answer)"
    by (rule replies_withD)
  show ?thesis
    by (simp add: analyze_message_try_def c analysis_of_completion_def f loads_content_def assms(2))
qed

lemma rewrite_try_invalid_json:
  assumes "replies_with E cl (rewrite_args E request) answer"
    and "json_loads E answer = Inl e"
  shows "rewrite_reply_try E cl request = Inl e"
proof -
  from assms(1) obtain completion where
    c: "chat_completions_create E cl (rewrite_args E request) = Inr completion"
    and f: "first_content completion = Inr (Some answer)"
    by (rule replies_withD)
  show ?thesis
    by (simp add: rewrite_reply_try_def c rewrite_of_completion_def f loads_content_def assms(2))
qed

lemma rewrite_try_replies_with:
  assumes "replies_with E cl (rewrite_args E request) answer"
  shows "rewrite_reply_try E cl request =
     (case json_loads E answer of
        Inl e \<Rightarrow> Inl e
      | Inr data \<Rightarrow>
          (case dict_get data ''rewritten_reply'' (PyStr (base_reply request)) of
             Inl e \<Rightarrow> Inl e
           | Inr rewritten \<Rightarrow> new_RewriteResponse rewritten))"
proof -
  from assms(1) obtain completion where
    c: "chat_completions_create E cl (rewrite_args E request) = Inr completion"
    and f: "first_content completion = Inr (Some answer)"
    by (rule replies_withD)
  show ?thesis
    by (simp add: rewrite_reply_try_def c rewrite_of_completion_def f loads_content_def)
qed

section \<open>Facts about the test doubles\<close>

lemma answers_answering: "answers (answering v) cl args v"
  by (simp add: answers_def answering_def first_content_def)

lemma replies_with_answering_garbage: "replies_with answering_garbage cl args ''not json''"
  by (simp add: replies_with_def answering_garbage_def first_content_def)

lemma replies_with_answering: "replies_with (answering v) cl args ''upstream answer''"
  by (simp add: replies_with_def answering_def first_content_def)

lemma no_fields: "map_of ([] :: (string \<times> pyval) list) key = None"
  by simp

lemma text_if_present_Nil: "text_if_present [] key"
  by (simp add: text_if_present_def)

lemma tasks_acceptable_Nil: "tasks_acceptable []"
  by (simp add: tasks_acceptable_def)

section \<open>The claims\<close>

text \<open>
  C1. When the upstream answer is a JSON object, every field the object lacks has its
  documented default in the response the handler returns. For \<open>analyze_message\<close>: a
  response is returned exactly when the fields the object does have pass the response
  model (texts, and a \<open>tasks\<close> list of texts), and in every returned response a
  missing \<open>classification\<close> is \<open>Informational\<close>, a missing \<open>summary\<close> is
  the empty text, missing \<open>tasks\<close> are the empty list and a missing
  \<open>suggested_reply\<close> is the empty text. For \<open>rewrite_reply\<close>: when
  \<open>rewritten_reply\<close> is missing, the response is returned and carries the request's
  \<open>base_reply\<close> unchanged.
\<close>

theorem missing_fields_take_their_defaults:
  "(answers E cl (analysis_args request) (PyDict kvs) \<longrightarrow>
      ((\<exists>r. returned (analyze_message E cl request) = Inr r) \<longleftrightarrow>
         text_if_present kvs ''classification'' \<and> text_if_present kvs ''summary'' \<and>
         tasks_acceptable kvs \<and> text_if_present kvs ''suggested_reply'') \<and>
      (\<forall>r. returned (analyze_message E cl request) = Inr r \<longrightarrow>
         (map_of kvs ''classification'' = None \<longrightarrow> classification r = ''Informational'') \<and>
         (map_of kvs ''summary'' = None \<longrightarrow> summary r = '''') \<and>
         (map_of kvs ''tasks'' = None \<longrightarrow> tasks r = []) \<and>
         (map_of kvs ''suggested_reply'' = None \<longrightarrow> suggested_reply r = ''''))) \<and>
   (answers E' cl' (rewrite_args E' request') (PyDict kvs') \<and>
    map_of kvs' ''rewritten_reply'' = None \<longrightarrow>
      returned (rewrite_reply E' cl' request') = Inr \<lparr>rewritten_reply = base_reply request'\<rparr>)"
proof (intro conjI impI allI)
  assume "answers E cl (analysis_args request) (PyDict kvs)"
  then show "(\<exists>r. returned (analyze_message E cl request) = Inr r) \<longleftrightarrow>
         text_if_present kvs ''classification'' \<and> text_if_present kvs ''summary'' \<and>
         tasks_acceptable kvs \<and> text_if_present kvs ''suggested_reply''"
    by (rule analyze_succeeds_iff)
next
  fix r
  assume a: "answers E cl (analysis_args request) (PyDict kvs)"
    and r: "returned (analyze_message E cl request) = Inr r"
    and m: "map_of kvs ''classification'' = None"
  from analyze_returned_Inr_D(1) [OF a r] m show "classification r = ''Informational''"
    by (simp add: field_or_missing)
next
  fix r
  assume a: "answers E cl (analysis_args request) (PyDict kvs)"
    and r: "returned (analyze_message E cl request) = Inr r"
    and m: "map_of kvs ''summary'' = None"
  from analyze_returned_Inr_D(2) [OF a r] m show "summary r = ''''"
    by (simp add: field_or_missing)
next
  fix r
  assume a: "answers E cl (analysis_args request) (PyDict kvs)"
    and r: "returned (analyze_message E cl request) = Inr r"
    and m: "map_of kvs ''tasks'' = None"
  from analyze_returned_Inr_D(3) [OF a r] m show "tasks r = []"
    by (simp add: normalized_tasks_missing)
next
  fix r
  assume a: "answers E cl (analysis_args request) (PyDict kvs)"
    and r: "returned (analyze_message E cl request) = Inr r"
    and m: "map_of kvs ''suggested_reply'' = None"
  from analyze_returned_Inr_D(4) [OF a r] m show "suggested_reply r = ''''"
    by (simp add: field_or_missing)
next
  assume "answers E' cl' (rewrite_args E' request') (PyDict kvs') \<and>
    map_of kvs' ''rewritten_reply'' = None"
  then have a: "answers E' cl' (rewrite_args E' request') (PyDict kvs')"
    and m: "map_of kvs' ''rewritten_reply'' = None"
    by simp_all
  show "returned (rewrite_reply E' cl' request') = Inr \<lparr>rewritten_reply = base_reply request'\<rparr>"
    by (simp add: rewrite_returned rewrite_try_answers [OF a] field_or_missing [OF m]
          new_RewriteResponse_def)
qed

theorem missing_fields_take_their_defaults_witness:
  "(\<exists>r. returned (analyze_message (answering (PyDict [])) a_client a_message) = Inr r \<and>
        classification r = ''Informational'' \<and> summary r = '''' \<and> tasks r = [] \<and>
        suggested_reply r = '''') \<and>
   returned (rewrite_reply (answering (PyDict [])) a_client a_rewrite) =
     Inr \<lparr>rewritten_reply = ''Sure, I will review them today.''\<rparr>"
proof -
  from missing_fields_take_their_defaults
         [where E = "answering (PyDict [])" and cl = a_client and request = a_message
            and kvs = "[]" and E' = "answering (PyDict [])" and cl' = a_client
            and request' = a_rewrite and kvs' = "[]"]
       answers_answering no_fields text_if_present_Nil tasks_acceptable_Nil
  have "(\<exists>r. returned (analyze_message (answering (PyDict [])) a_client a_message) = Inr r \<and>
        classification r = ''Informational'' \<and> summary r = '''' \<and> tasks r = [] \<and>
        suggested_reply r = '''') \<and>
   returned (rewrite_reply (answering (PyDict [])) a_client a_rewrite) =
     Inr \<lparr>rewritten_reply = base_reply a_rewrite\<rparr>"
    by blast
  then show ?thesis
    by (simp add: a_rewrite_def)
qed

text \<open>
  C2. When the upstream answer is a JSON object in which \<open>classification\<close>,
  \<open>summary\<close> and \<open>suggested_reply\<close> are texts and \<open>tasks\<close> is a list of
  texts, \<open>analyze_message\<close> returns exactly these four values, prints nothing and has
  sent one request; when \<open>rewritten_reply\<close> is a text, \<open>rewrite_reply\<close> returns
  exactly that text.
\<close>

theorem present_fields_pass_through_verbatim:
  "(answers E cl (analysis_args request) (PyDict kvs) \<and>
    map_of kvs ''classification'' = Some (PyStr c) \<and>
    map_of kvs ''summary'' = Some (PyStr s) \<and>
    map_of kvs ''tasks'' = Some (PyList (map PyStr ts)) \<and>
    map_of kvs ''suggested_reply'' = Some (PyStr sr) \<longrightarrow>
      analyze_message E cl request =
        \<lparr>sent = [analysis_args request], printed = [],
         returned = Inr \<lparr>classification = c, summary = s, tasks = ts, suggested_reply = sr\<rparr>\<rparr>) \<and>
   (answers E' cl' (rewrite_args E' request') (PyDict kvs') \<and>
    map_of kvs' ''rewritten_reply'' = Some (PyStr w) \<longrightarrow>
      rewrite_reply E' cl' request' =
        \<lparr>sent = [rewrite_args E' request'], printed = [],
         returned = Inr \<lparr>rewritten_reply = w\<rparr>\<rparr>)"
proof (intro conjI impI)
  assume h: "answers E cl (analysis_args request) (PyDict kvs) \<and>
    map_of kvs ''classification'' = Some (PyStr c) \<and>
    map_of kvs ''summary'' = Some (PyStr s) \<and>
    map_of kvs ''tasks'' = Some (PyList (map PyStr ts)) \<and>
    map_of kvs ''suggested_reply'' = Some (PyStr sr)"
  then have a: "answers E cl (analysis_args request) (PyDict kvs)"
    by simp
  from h have "field_or kvs ''classification'' (PyStr ''Informational'') = PyStr c"
    and "field_or kvs ''summary'' (PyStr '''') = PyStr s"
    and "normalized_tasks kvs = PyList (map PyStr ts)"
    and "field_or kvs ''suggested_reply'' (PyStr '''') = PyStr sr"
    by (simp_all add: field_or_present normalized_tasks_list)
  then have "analyze_message_try E cl request =
      Inr \<lparr>classification = c, summary = s, tasks = ts, suggested_reply = sr\<rparr>"
    by (simp add: analyze_try_normalized [OF a] new_MessageAnalysisResponse_def
          validate_str_items_map)
  then show "analyze_message E cl request =
        \<lparr>sent = [analysis_args request], printed = [],
         returned = Inr \<lparr>classification = c, summary = s, tasks = ts, suggested_reply = sr\<rparr>\<rparr>"
    by (rule analyze_message_Inr)
next
  assume h: "answers E' cl' (rewrite_args E' request') (PyDict kvs') \<and>
    map_of kvs' ''rewritten_reply'' = Some (PyStr w)"
  then have a: "answers E' cl' (rewrite_args E' request') (PyDict kvs')"
    by simp
  from h have "field_or kvs' ''rewritten_reply'' (PyStr (base_reply request')) = PyStr w"
    by (simp add: field_or_present)
  then have "rewrite_reply_try E' cl' request' = Inr \<lparr>rewritten_reply = w\<rparr>"
    by (simp add: rewrite_try_answers [OF a] new_RewriteResponse_def)
  then show "rewrite_reply E' cl' request' =
        \<lparr>sent = [rewrite_args E' request'], printed = [],
         returned = Inr \<lparr>rewritten_reply = w\<rparr>\<rparr>"
    by (rule rewrite_reply_Inr)
qed

theorem present_fields_pass_through_verbatim_witness:
  "returned (analyze_message
      (answering (PyDict [(''classification'', PyStr ''Request''),
                          (''summary'', PyStr ''Review of the API docs is asked for.''),
                          (''tasks'', PyList [PyStr ''Review the API docs'']),
                          (''suggested_reply'', PyStr ''Will do.'')]))
      a_client a_message) =
     Inr \<lparr>classification = ''Request'', summary = ''Review of the API docs is asked for.'',
          tasks = [''Review the API docs''], suggested_reply = ''Will do.''\<rparr> \<and>
   returned (rewrite_reply (answering (PyDict [(''rewritten_reply'', PyStr ''Got it, will do.'')]))
      a_client a_rewrite) =
     Inr \<lparr>rewritten_reply = ''Got it, will do.''\<rparr>"
proof -
  let ?kvs = "[(''classification'', PyStr ''Request''),
               (''summary'', PyStr ''Review of the API docs is asked for.''),
               (''tasks'', PyList [PyStr ''Review the API docs'']),
               (''suggested_reply'', PyStr ''Will do.'')]"
  let ?kvs' = "[(''rewritten_reply'', PyStr ''Got it, will do.'')]"
  have f: "map_of ?kvs ''classification'' = Some (PyStr ''Request'')"
    "map_of ?kvs ''summary'' = Some (PyStr ''Review of the API docs is asked for.'')"
    "map_of ?kvs ''tasks'' = Some (PyList (map PyStr [''Review the API docs'']))"
    "map_of ?kvs ''suggested_reply'' = Some (PyStr ''Will do.'')"
    "map_of ?kvs' ''rewritten_reply'' = Some (PyStr ''Got it, will do.'')"
    by simp_all
  from present_fields_pass_through_verbatim
         [where E = "answering (PyDict ?kvs)" and cl = a_client and request = a_message
            and kvs = ?kvs and c = "''Request''"
            and s = "''Review of the API docs is asked for.''"
            and ts = "[''Review the API docs'']" and sr = "''Will do.''"
            and E' = "answering (PyDict ?kvs')" and cl' = a_client
            and request' = a_rewrite and kvs' = ?kvs' and w = "''Got it, will do.''"]
       answers_answering f
  have "analyze_message (answering (PyDict ?kvs)) a_client a_message =
          \<lparr>sent = [analysis_args a_message], printed = [],
           returned = Inr \<lparr>classification = ''Request'',
             summary = ''Review of the API docs is asked for.'',
             tasks = [''Review the API docs''], suggested_reply = ''Will do.''\<rparr>\<rparr>"
    and "rewrite_reply (answering (PyDict ?kvs')) a_client a_rewrite =
          \<lparr>sent = [rewrite_args (answering (PyDict ?kvs')) a_rewrite], printed = [],
           returned = Inr \<lparr>rewritten_reply = ''Got it, will do.''\<rparr>\<rparr>"
    by blast+
  then show ?thesis
    by simp
qed

text \<open>
  C3. When the upstream answer is a JSON object whose \<open>tasks\<close> field is present and
  is not a list, the value of \<open>tasks\<close> that \<open>analyze_message\<close> hands to the response
  model is the empty list, every response it returns has empty \<open>tasks\<close>, and it
  returns a response exactly when the three text fields, where present, are texts.
\<close>

theorem tasks_not_a_list_become_empty:
  assumes "answers E cl (analysis_args request) (PyDict kvs)"
    and "map_of kvs ''tasks'' = Some v"
    and "\<not> isinstance_list v"
  shows "analyze_message_try E cl request =
           new_MessageAnalysisResponse
             (field_or kvs ''classification'' (PyStr ''Informational''))
             (field_or kvs ''summary'' (PyStr ''''))
             (PyList [])
             (field_or kvs ''suggested_reply'' (PyStr '''')) \<and>
         (\<forall>r. returned (analyze_message E cl request) = Inr r \<longrightarrow> tasks r = []) \<and>
         ((\<exists>r. returned (analyze_message E cl request) = Inr r) \<longleftrightarrow>
            text_if_present kvs ''classification'' \<and> text_if_present kvs ''summary'' \<and>
            text_if_present kvs ''suggested_reply'')"
proof (intro conjI allI impI)
  have n: "normalized_tasks kvs = PyList []"
    using assms(2,3) by (rule normalized_tasks_non_list)
  show "analyze_message_try E cl request =
           new_MessageAnalysisResponse
             (field_or kvs ''classification'' (PyStr ''Informational''))
             (field_or kvs ''summary'' (PyStr ''''))
             (PyList [])
             (field_or kvs ''suggested_reply'' (PyStr ''''))"
    using analyze_try_normalized [OF assms(1)] by (simp only: n)
  have "tasks_acceptable kvs"
    using is_text_list_normalized_tasks [of kvs] by (simp add: n)
  then show "(\<exists>r. returned (analyze_message E cl request) = Inr r) \<longleftrightarrow>
            text_if_present kvs ''classification'' \<and> text_if_present kvs ''summary'' \<and>
            text_if_present kvs ''suggested_reply''"
    by (simp add: analyze_succeeds_iff [OF assms(1)])
  fix r
  assume "returned (analyze_message E cl request) = Inr r"
  from analyze_returned_Inr_D(3) [OF assms(1) this] show "tasks r = []"
    by (simp add: n)
qed

theorem tasks_not_a_list_become_empty_witness:
  "\<exists>r. returned (analyze_message (answering (PyDict [(''tasks'', PyStr ''Call Bob'')]))
          a_client a_message) = Inr r \<and> tasks r = []"
proof -
  let ?kvs = "[(''tasks'', PyStr ''Call Bob'')]"
  have f: "map_of ?kvs ''tasks'' = Some (PyStr ''Call Bob'')"
    and n: "\<not> isinstance_list (PyStr ''Call Bob'')"
    and p: "text_if_present ?kvs ''classification''" "text_if_present ?kvs ''summary''"
      "text_if_present ?kvs ''suggested_reply''"
    by (simp_all add: text_if_present_def)
  from tasks_not_a_list_become_empty [OF answers_answering f n, of a_client a_message] p
  show ?thesis
    by blast
qed

text \<open>
  C4. When the call to the completion service raises, when the text it answers with is
  rejected by \<open>json.loads\<close>, and in general when anything raises inside the
  \<open>try\<close>, each handler raises the HTTP exception with status 500 and its own fixed
  detail; the exception that was the cause is printed and is no part of what is raised.
\<close>

theorem failures_surface_as_generic_500:
  "(chat_completions_create E cl (analysis_args request) = Inl e \<or>
    replies_with E cl (analysis_args request) answer \<and> json_loads E answer = Inl e \<or>
    analyze_message_try E cl request = Inl e \<longrightarrow>
      returned (analyze_message E cl request) = Inl (HTTPException 500 ''Error analyzing message'') \<and>
      printed (analyze_message E cl request) = [(''Error in /analyze_message:'', e)]) \<and>
   (chat_completions_create E' cl' (rewrite_args E' request') = Inl e' \<or>
    replies_with E' cl' (rewrite_args E' request') answer' \<and> json_loads E' answer' = Inl e' \<or>
    rewrite_reply_try E' cl' request' = Inl e' \<longrightarrow>
      returned (rewrite_reply E' cl' request') = Inl (HTTPException 500 ''Error rewriting reply'') \<and>
      printed (rewrite_reply E' cl' request') = [(''Error in /rewrite_reply:'', e')])"
proof (intro conjI impI)
  assume h: "chat_completions_create E cl (analysis_args request) = Inl e \<or>
    replies_with E cl (analysis_args request) answer \<and> json_loads E answer = Inl e \<or>
    analyze_message_try E cl request = Inl e"
  have t: "analyze_message_try E cl request = Inl e"
    using h
  proof (elim disjE conjE)
    assume "chat_completions_create E cl (analysis_args request) = Inl e"
    then show ?thesis by (simp add: analyze_message_try_def)
  next
    assume "replies_with E cl (analysis_args request) answer" "json_loads E answer = Inl e"
    then show ?thesis by (rule analyze_try_invalid_json)
  qed
  from analyze_message_Inl [OF t]
  show "returned (analyze_message E cl request) = Inl (HTTPException 500 ''Error analyzing message'')"
    and "printed (analyze_message E cl request) = [(''Error in /analyze_message:'', e)]"
    by simp_all
next
  assume h: "chat_completions_create E' cl' (rewrite_args E' request') = Inl e' \<or>
    replies_with E' cl' (rewrite_args E' request') answer' \<and> json_loads E' answer' = Inl e' \<or>
    rewrite_reply_try E' cl' request' = Inl e'"
  have t: "rewrite_reply_try E' cl' request' = Inl e'"
    using h
  proof (elim disjE conjE)
    assume "chat_completions_create E' cl' (rewrite_args E' request') = Inl e'"
    then show ?thesis by (simp add: rewrite_reply_try_def)
  next
    assume "replies_with E' cl' (rewrite_args E' request') answer'" "json_loads E' answer' = Inl e'"
    then show ?thesis by (rule rewrite_try_invalid_json)
  qed
  from rewrite_reply_Inl [OF t]
  show "returned (rewrite_reply E' cl' request') = Inl (HTTPException 500 ''Error rewriting reply'')"
    and "printed (rewrite_reply E' cl' request') = [(''Error in /rewrite_reply:'', e')]"
    by simp_all
qed

theorem failures_surface_as_generic_500_witness:
  "returned (analyze_message answering_garbage a_client a_message) =
     Inl (HTTPException 500 ''Error analyzing message'') \<and>
   returned (rewrite_reply unreachable a_client a_rewrite) =
     Inl (HTTPException 500 ''Error rewriting reply'')"
proof -
  have g: "json_loads answering_garbage ''not json'' = Inl (JSONDecodeError ''Expecting value'')"
    by (simp add: answering_garbage_def)
  have u: "chat_completions_create unreachable a_client (rewrite_args unreachable a_rewrite) =
      Inl (APIError ''Connection error.'')"
    by (simp add: unreachable_def)
  from failures_surface_as_generic_500
         [where E = answering_garbage and cl = a_client and request = a_message
            and answer = "''not json''" and e = "JSONDecodeError ''Expecting value''"
            and E' = unreachable and cl' = a_client and request' = a_rewrite
            and e' = "APIError ''Connection error.''"]
       replies_with_answering_garbage g u
  show ?thesis
    by blast
qed

text \<open>
  C5, as amended. Every field the handlers read has an explicit default, carried by the
  returned response when the field is missing, and a \<open>tasks\<close> value that is present
  but is not a list degrades to the empty list: when the text fields that are present
  are texts, and \<open>tasks\<close> is missing or is not a list, \<open>analyze_message\<close> returns a
  response with empty \<open>tasks\<close> whose text fields are the upstream values or their
  defaults; when \<open>rewritten_reply\<close> is missing or a text, \<open>rewrite_reply\<close> returns
  it or the \<open>base_reply\<close>.
\<close>

theorem tasks_of_the_wrong_type_degrade_to_the_default:
  "(answers E cl (analysis_args request) (PyDict kvs) \<and>
    text_if_present kvs ''classification'' \<and> text_if_present kvs ''summary'' \<and>
    text_if_present kvs ''suggested_reply'' \<and>
    (map_of kvs ''tasks'' = None \<or> map_of kvs ''tasks'' = Some v \<and> \<not> isinstance_list v) \<longrightarrow>
      (\<exists>r. returned (analyze_message E cl request) = Inr r \<and>
            PyStr (classification r) = field_or kvs ''classification'' (PyStr ''Informational'') \<and>
            PyStr (summary r) = field_or kvs ''summary'' (PyStr '''') \<and>
            tasks r = [] \<and>
            PyStr (suggested_reply r) = field_or kvs ''suggested_reply'' (PyStr ''''))) \<and>
   (answers E' cl' (rewrite_args E' request') (PyDict kvs') \<and>
    text_if_present kvs' ''rewritten_reply'' \<longrightarrow>
      (\<exists>r. returned (rewrite_reply E' cl' request') = Inr r \<and>
            PyStr (rewritten_reply r) =
              field_or kvs' ''rewritten_reply'' (PyStr (base_reply request'))))"
proof (intro conjI impI)
  assume h: "answers E cl (analysis_args request) (PyDict kvs) \<and>
    text_if_present kvs ''classification'' \<and> text_if_present kvs ''summary'' \<and>
    text_if_present kvs ''suggested_reply'' \<and>
    (map_of kvs ''tasks'' = None \<or> map_of kvs ''tasks'' = Some v \<and> \<not> isinstance_list v)"
  then have a: "answers E cl (analysis_args request) (PyDict kvs)"
    by simp
  from h have n: "normalized_tasks kvs = PyList []"
    by (auto simp: normalized_tasks_missing normalized_tasks_non_list)
  then have "tasks_acceptable kvs"
    using is_text_list_normalized_tasks [of kvs] by simp
  with h obtain r where r: "returned (analyze_message E cl request) = Inr r"
    using analyze_succeeds_iff [OF a] by blast
  from analyze_returned_Inr_D [OF a r] n
  have "PyStr (classification r) = field_or kvs ''classification'' (PyStr ''Informational'')"
    and "PyStr (summary r) = field_or kvs ''summary'' (PyStr '''')"
    and "tasks r = []"
    and "PyStr (suggested_reply r) = field_or kvs ''suggested_reply'' (PyStr '''')"
    by simp_all
  with r show "\<exists>r. returned (analyze_message E cl request) = Inr r \<and>
            PyStr (classification r) = field_or kvs ''classification'' (PyStr ''Informational'') \<and>
            PyStr (summary r) = field_or kvs ''summary'' (PyStr '''') \<and>
            tasks r = [] \<and>
            PyStr (suggested_reply r) = field_or kvs ''suggested_reply'' (PyStr '''')"
    by blast
next
  assume h: "answers E' cl' (rewrite_args E' request') (PyDict kvs') \<and>
    text_if_present kvs' ''rewritten_reply''"
  then have a: "answers E' cl' (rewrite_args E' request') (PyDict kvs')"
    by simp
  from h have "is_text (field_or kvs' ''rewritten_reply'' (PyStr (base_reply request')))"
    by (simp add: is_text_field_or)
  then obtain w where w: "field_or kvs' ''rewritten_reply'' (PyStr (base_reply request')) = PyStr w"
    by (cases "field_or kvs' ''rewritten_reply'' (PyStr (base_reply request'))") simp_all
  have "rewrite_reply_try E' cl' request' = Inr \<lparr>rewritten_reply = w\<rparr>"
    by (simp add: rewrite_try_answers [OF a] w new_RewriteResponse_def)
  then have "returned (rewrite_reply E' cl' request') = Inr \<lparr>rewritten_reply = w\<rparr>"
    by (simp add: rewrite_returned)
  with w show "\<exists>r. returned (rewrite_reply E' cl' request') = Inr r \<and>
            PyStr (rewritten_reply r) =
              field_or kvs' ''rewritten_reply'' (PyStr (base_reply request'))"
    by simp
qed

theorem tasks_of_the_wrong_type_degrade_to_the_default_witness:
  "(\<exists>r. returned (analyze_message
            (answering (PyDict [(''classification'', PyStr ''Reminder''), (''tasks'', PyInt 3)]))
            a_client a_message) = Inr r \<and>
        classification r = ''Reminder'' \<and> summary r = '''' \<and> tasks r = [] \<and>
        suggested_reply r = '''') \<and>
   (\<exists>r. returned (rewrite_reply (answering (PyDict [])) a_client a_rewrite) = Inr r \<and>
        rewritten_reply r = ''Sure, I will review them today.'')"
proof -
  let ?kvs = "[(''classification'', PyStr ''Reminder''), (''tasks'', PyInt 3)]"
  have p: "text_if_present ?kvs ''classification''" "text_if_present ?kvs ''summary''"
      "text_if_present ?kvs ''suggested_reply''"
    and t: "map_of ?kvs ''tasks'' = Some (PyInt 3)" "\<not> isinstance_list (PyInt 3)"
    by (simp_all add: text_if_present_def)
  from tasks_of_the_wrong_type_degrade_to_the_default
         [where E = "answering (PyDict ?kvs)" and cl = a_client and request = a_message
            and kvs = ?kvs and v = "PyInt 3" and E' = "answering (PyDict [])"
            and cl' = a_client and request' = a_rewrite and kvs' = "[]"]
       answers_answering p t text_if_present_Nil
  have "(\<exists>r. returned (analyze_message (answering (PyDict ?kvs)) a_client a_message) = Inr r \<and>
            PyStr (classification r) = field_or ?kvs ''classification'' (PyStr ''Informational'') \<and>
            PyStr (summary r) = field_or ?kvs ''summary'' (PyStr '''') \<and>
            tasks r = [] \<and>
            PyStr (suggested_reply r) = field_or ?kvs ''suggested_reply'' (PyStr '''')) \<and>
        (\<exists>r. returned (rewrite_reply (answering (PyDict [])) a_client a_rewrite) = Inr r \<and>
            PyStr (rewritten_reply r) =
              field_or [] ''rewritten_reply'' (PyStr (base_reply a_rewrite)))"
    by blast
  then show ?thesis
    by (simp add: field_or_def a_rewrite_def)
qed

text \<open>
  C5, as stated, fails: an upstream object whose \<open>classification\<close> is a list, every
  other field being as it should, makes \<open>analyze_message\<close> raise the HTTP exception
  with status 500 instead of returning a response with the default classification.
\<close>

theorem wrong_typed_classification_is_not_defaulted:
  "returned (analyze_message
      (answering (PyDict [(''classification'', PyList [PyStr ''Urgent'']),
                          (''summary'', PyStr ''Review of the API docs is asked for.''),
                          (''tasks'', PyList [PyStr ''Review the API docs'']),
                          (''suggested_reply'', PyStr ''Will do.'')]))
      a_client a_message) =
     Inl (HTTPException 500 ''Error analyzing message'')"
  by (simp add: analyze_returned analyze_try_normalized [OF answers_answering]
        field_or_def normalized_tasks_def new_MessageAnalysisResponse_def)

text \<open>
  C6. When the upstream answer is a JSON object whose \<open>classification\<close> is a text,
  whatever the text, every response \<open>analyze_message\<close> returns carries it unchanged,
  and whether a response is returned depends on the other three fields alone: no label
  is rejected or replaced.
\<close>

theorem classification_is_not_checked_against_the_labels:
  assumes "answers E cl (analysis_args request) (PyDict kvs)"
    and "map_of kvs ''classification'' = Some (PyStr c)"
  shows "(\<forall>r. returned (analyze_message E cl request) = Inr r \<longrightarrow> classification r = c) \<and>
         ((\<exists>r. returned (analyze_message E cl request) = Inr r \<and> classification r = c) \<longleftrightarrow>
            text_if_present kvs ''summary'' \<and> tasks_acceptable kvs \<and>
            text_if_present kvs ''suggested_reply'')"
proof -
  have p: "\<forall>r. returned (analyze_message E cl request) = Inr r \<longrightarrow> classification r = c"
  proof (intro allI impI)
    fix r
    assume "returned (analyze_message E cl request) = Inr r"
    from analyze_returned_Inr_D(1) [OF assms(1) this] show "classification r = c"
      by (simp add: field_or_present [OF assms(2)])
  qed
  have "text_if_present kvs ''classification''"
    by (simp add: text_if_present_def assms(2))
  then have "(\<exists>r. returned (analyze_message E cl request) = Inr r) \<longleftrightarrow>
      text_if_present kvs ''summary'' \<and> tasks_acceptable kvs \<and>
      text_if_present kvs ''suggested_reply''"
    by (simp add: analyze_succeeds_iff [OF assms(1)])
  with p show ?thesis
    by blast
qed

theorem classification_is_not_checked_against_the_labels_witness:
  "\<exists>r. returned (analyze_message (answering (PyDict [(''classification'', PyStr ''Spam'')]))
          a_client a_message) = Inr r \<and> classification r = ''Spam''"
proof -
  let ?kvs = "[(''classification'', PyStr ''Spam'')]"
  have f: "map_of ?kvs ''classification'' = Some (PyStr ''Spam'')"
    and p: "text_if_present ?kvs ''summary''" "tasks_acceptable ?kvs"
      "text_if_present ?kvs ''suggested_reply''"
    by (simp_all add: text_if_present_def tasks_acceptable_def)
  from classification_is_not_checked_against_the_labels
         [OF answers_answering f, of a_client a_message] p
  show ?thesis
    by blast
qed

text \<open>
  C7. Whatever the \<open>style\<close> of the request, \<open>rewrite_reply\<close> calls the
  completion service with one argument: the model, the JSON response format, the system
  prompt, and as user turn the serialization of the \<open>dict\<close> of
  \<open>original_message\<close>, \<open>base_reply\<close> and \<open>style\<close>, the style being the
  request's own. What the service does with that argument decides the outcome: if it
  raises, the exception it raised is the one printed; if it answers, the outcome is that
  of reading its answer; if its answer is an object with a text as
  \<open>rewritten_reply\<close>, that text is returned. No style is refused before or after the
  call.
\<close>

theorem style_is_forwarded_as_given:
  "rewrite_args E request =
     \<lparr>model = ''gpt-4.1-mini'',
      response_format = [(''type'', ''json_object'')],
      messages =
        [\<lparr>role = ''system'', content = REWRITE_SYSTEM_PROMPT\<rparr>,
         \<lparr>role = ''user'',
          content = Text (json_dumps E
            (PyDict [(''original_message'', PyStr (original_message request)),
                     (''base_reply'', PyStr (base_reply request)),
                     (''style'', PyStr (style request))]))\<rparr>]\<rparr> \<and>
   sent (rewrite_reply E cl request) = [rewrite_args E request] \<and>
   (chat_completions_create E cl (rewrite_args E request) = Inl e \<longrightarrow>
      returned (rewrite_reply E cl request) = Inl (HTTPException 500 ''Error rewriting reply'') \<and>
      printed (rewrite_reply E cl request) = [(''Error in /rewrite_reply:'', e)]) \<and>
   (chat_completions_create E cl (rewrite_args E request) = Inr completion \<longrightarrow>
      returned (rewrite_reply E cl request) =
        (case rewrite_of_completion E request completion of
           Inl e' \<Rightarrow> Inl (HTTPException 500 ''Error rewriting reply'')
         | Inr r \<Rightarrow> Inr r) \<and>
      printed (rewrite_reply E cl request) =
        (case rewrite_of_completion E request completion of
           Inl e' \<Rightarrow> [(''Error in /rewrite_reply:'', e')]
         | Inr r \<Rightarrow> [])) \<and>
   (answers E cl (rewrite_args E request) (PyDict kvs) \<and>
    map_of kvs ''rewritten_reply'' = Some (PyStr w) \<longrightarrow>
      returned (rewrite_reply E cl request) = Inr \<lparr>rewritten_reply = w\<rparr>)"
proof (intro conjI impI)
  show "rewrite_args E request =
     \<lparr>model = ''gpt-4.1-mini'',
      response_format = [(''type'', ''json_object'')],
      messages =
        [\<lparr>role = ''system'', content = REWRITE_SYSTEM_PROMPT\<rparr>,
         \<lparr>role = ''user'',
          content = Text (json_dumps E
            (PyDict [(''original_message'', PyStr (original_message request)),
                     (''base_reply'', PyStr (base_reply request)),
                     (''style'', PyStr (style request))]))\<rparr>]\<rparr>"
    by (simp add: rewrite_args_def payload_def)
next
  show "sent (rewrite_reply E cl request) = [rewrite_args E request]"
    by (simp add: rewrite_reply_def split: sum.splits)
next
  assume "chat_completions_create E cl (rewrite_args E request) = Inl e"
  then have t: "rewrite_reply_try E cl request = Inl e"
    by (simp add: rewrite_reply_try_def)
  from rewrite_reply_Inl [OF t]
  show "returned (rewrite_reply E cl request) = Inl (HTTPException 500 ''Error rewriting reply'')"
    and "printed (rewrite_reply E cl request) = [(''Error in /rewrite_reply:'', e)]"
    by simp_all
next
  assume "chat_completions_create E cl (rewrite_args E request) = Inr completion"
  then have t: "rewrite_reply_try E cl request = rewrite_of_completion E request completion"
    by (simp add: rewrite_reply_try_def)
  show "returned (rewrite_reply E cl request) =
        (case rewrite_of_completion E request completion of
           Inl e' \<Rightarrow> Inl (HTTPException 500 ''Error rewriting reply'')
         | Inr r \<Rightarrow> Inr r)"
    by (simp add: rewrite_returned t)
  show "printed (rewrite_reply E cl request) =
        (case rewrite_of_completion E request completion of
           Inl e' \<Rightarrow> [(''Error in /rewrite_reply:'', e')]
         | Inr r \<Rightarrow> [])"
    by (simp add: rewrite_reply_def t split: sum.splits)
next
  assume h: "answers E cl (rewrite_args E request) (PyDict kvs) \<and>
    map_of kvs ''rewritten_reply'' = Some (PyStr w)"
  then have a: "answers E cl (rewrite_args E request) (PyDict kvs)"
    and m: "map_of kvs ''rewritten_reply'' = Some (PyStr w)"
    by simp_all
  have "rewrite_reply_try E cl request = Inr \<lparr>rewritten_reply = w\<rparr>"
    by (simp add: rewrite_try_answers [OF a] field_or_present [OF m] new_RewriteResponse_def)
  then show "returned (rewrite_reply E cl request) = Inr \<lparr>rewritten_reply = w\<rparr>"
    by (simp add: rewrite_returned)
qed

theorem style_is_forwarded_as_given_witness:
  "messages (rewrite_args echoing another_rewrite) =
     [\<lparr>role = ''system'', content = REWRITE_SYSTEM_PROMPT\<rparr>,
      \<lparr>role = ''user'',
       content = Text
         ''original_message=Any update on the docs?;base_reply=Sure, I will review them today.;style=sarcastic;''\<rparr>] \<and>
   returned (rewrite_reply echoing a_client another_rewrite) =
     Inr \<lparr>rewritten_reply =
       ''original_message=Any update on the docs?;base_reply=Sure, I will review them today.;style=sarcastic;''\<rparr>"
proof -
  let ?sent = "''original_message=Any update on the docs?;base_reply=Sure, I will review them today.;style=sarcastic;''"
  note c7 = style_is_forwarded_as_given
    [where E = echoing and cl = a_client and request = another_rewrite
       and kvs = "[(''rewritten_reply'', PyStr ?sent)]" and w = ?sent]
  have d: "json_dumps echoing
      (PyDict [(''original_message'', PyStr (original_message another_rewrite)),
               (''base_reply'', PyStr (base_reply another_rewrite)),
               (''style'', PyStr (style another_rewrite))]) = ?sent"
    by (simp add: echoing_def encode_texts_def another_rewrite_def)
  from c7 have args: "rewrite_args echoing another_rewrite =
     \<lparr>model = ''gpt-4.1-mini'',
      response_format = [(''type'', ''json_object'')],
      messages =
        [\<lparr>role = ''system'', content = REWRITE_SYSTEM_PROMPT\<rparr>,
         \<lparr>role = ''user'', content = Text ?sent\<rparr>]\<rparr>"
    by (simp only: d)
  have a: "answers echoing a_client (rewrite_args echoing another_rewrite)
      (PyDict [(''rewritten_reply'', PyStr ?sent)])"
    unfolding args by (simp add: answers_def echoing_def first_content_def)
  have m: "map_of [(''rewritten_reply'', PyStr ?sent)] ''rewritten_reply'' = Some (PyStr ?sent)"
    by simp
  from c7 a m have "returned (rewrite_reply echoing a_client another_rewrite) =
      Inr \<lparr>rewritten_reply = ?sent\<rparr>"
    by blast
  with args show ?thesis
    by simp
qed

text \<open>
  C8. If the credential is absent from the process configuration, importing the module
  raises; if it is present, the import succeeds, and one client is constructed, with
  that credential. The configuration is the environment and, for what the environment
  does not set, the \<open>.env\<close> file; as in the guard \<open>not OPENAI_API_KEY\<close> of line
  16 and its message, a variable that is set to the empty text is not set.
\<close>

theorem startup_needs_a_non_empty_credential:
  "(environ ''OPENAI_API_KEY'' = None \<and> dotenv ''OPENAI_API_KEY'' = None \<or>
    environ ''OPENAI_API_KEY'' = Some '''' \<or>
    environ ''OPENAI_API_KEY'' = None \<and> dotenv ''OPENAI_API_KEY'' = Some '''' \<longrightarrow>
      module_init dotenv environ = Inl (RuntimeError ''OPENAI_API_KEY is not set in .env'')) \<and>
   (k \<noteq> '''' \<and>
    (environ ''OPENAI_API_KEY'' = Some k \<or>
     environ ''OPENAI_API_KEY'' = None \<and> dotenv ''OPENAI_API_KEY'' = Some k) \<longrightarrow>
      module_init dotenv environ =
        Inr \<lparr>OPENAI_API_KEY = k, client = OpenAI k, constructed = [OpenAI k]\<rparr>)"
  by (auto simp: module_init_def load_dotenv_def map_add_def)

theorem startup_needs_a_non_empty_credential_witness:
  "module_init Map.empty Map.empty = Inl (RuntimeError ''OPENAI_API_KEY is not set in .env'') \<and>
   module_init Map.empty (Map.empty(''OPENAI_API_KEY'' \<mapsto> '''')) =
     Inl (RuntimeError ''OPENAI_API_KEY is not set in .env'') \<and>
   module_init (Map.empty(''OPENAI_API_KEY'' \<mapsto> ''sk-test'')) Map.empty =
     Inr \<lparr>OPENAI_API_KEY = ''sk-test'', client = OpenAI ''sk-test'',
          constructed = [OpenAI ''sk-test'']\<rparr>"
  using startup_needs_a_non_empty_credential
          [of Map.empty Map.empty "''sk-test''"]
        startup_needs_a_non_empty_credential
          [of "Map.empty(''OPENAI_API_KEY'' \<mapsto> '''')" Map.empty "''sk-test''"]
        startup_needs_a_non_empty_credential
          [of Map.empty "Map.empty(''OPENAI_API_KEY'' \<mapsto> ''sk-test'')" "''sk-test''"]
  by simp

text \<open>
  C9. When the upstream answer is a JSON object in which \<open>classification\<close>,
  \<open>summary\<close> or \<open>suggested_reply\<close> is present and is not a text, or \<open>tasks\<close>
  is a list with an element that is not a text, \<open>analyze_message\<close> raises the HTTP
  exception with status 500, the cause printed being the validation error of the response
  model; the same holds of \<open>rewrite_reply\<close> when \<open>rewritten_reply\<close> is present and
  is not a text.
\<close>

theorem wrong_typed_fields_fail_the_request:
  "(answers E cl (analysis_args request) (PyDict kvs) \<and>
    (map_of kvs ''classification'' = Some v \<and> \<not> is_text v \<or>
     map_of kvs ''summary'' = Some v \<and> \<not> is_text v \<or>
     map_of kvs ''suggested_reply'' = Some v \<and> \<not> is_text v \<or>
     map_of kvs ''tasks'' = Some (PyList vs) \<and> \<not> list_all is_text vs) \<longrightarrow>
      returned (analyze_message E cl request) = Inl (HTTPException 500 ''Error analyzing message'') \<and>
      (\<exists>fs. printed (analyze_message E cl request) =
         [(''Error in /analyze_message:'', ValidationError fs)])) \<and>
   (answers E' cl' (rewrite_args E' request') (PyDict kvs') \<and>
    map_of kvs' ''rewritten_reply'' = Some v' \<and> \<not> is_text v' \<longrightarrow>
      returned (rewrite_reply E' cl' request') = Inl (HTTPException 500 ''Error rewriting reply'') \<and>
      printed (rewrite_reply E' cl' request') =
         [(''Error in /rewrite_reply:'', ValidationError [''rewritten_reply''])])"
proof (intro conjI impI)
  assume h: "answers E cl (analysis_args request) (PyDict kvs) \<and>
    (map_of kvs ''classification'' = Some v \<and> \<not> is_text v \<or>
     map_of kvs ''summary'' = Some v \<and> \<not> is_text v \<or>
     map_of kvs ''suggested_reply'' = Some v \<and> \<not> is_text v \<or>
     map_of kvs ''tasks'' = Some (PyList vs) \<and> \<not> list_all is_text vs)"
  then have a: "answers E cl (analysis_args request) (PyDict kvs)"
    by simp
  from h have "\<not> (text_if_present kvs ''classification'' \<and> text_if_present kvs ''summary'' \<and>
      tasks_acceptable kvs \<and> text_if_present kvs ''suggested_reply'')"
    by (auto simp: text_if_present_def tasks_acceptable_def)
  then have "\<not> (is_text (field_or kvs ''classification'' (PyStr ''Informational'')) \<and>
        is_text (field_or kvs ''summary'' (PyStr '''')) \<and>
        is_text_list (normalized_tasks kvs) \<and>
        is_text (field_or kvs ''suggested_reply'' (PyStr '''')))"
    by (simp add: is_text_field_or is_text_list_normalized_tasks)
  from new_analysis_failure [OF this] obtain fs where
    t: "analyze_message_try E cl request = Inl (ValidationError fs)"
    by (auto simp only: analyze_try_normalized [OF a])
  from analyze_message_Inl [OF t]
  show "returned (analyze_message E cl request) = Inl (HTTPException 500 ''Error analyzing message'')"
    and "\<exists>fs. printed (analyze_message E cl request) =
         [(''Error in /analyze_message:'', ValidationError fs)]"
    by simp_all
next
  assume h: "answers E' cl' (rewrite_args E' request') (PyDict kvs') \<and>
    map_of kvs' ''rewritten_reply'' = Some v' \<and> \<not> is_text v'"
  then have a: "answers E' cl' (rewrite_args E' request') (PyDict kvs')"
    and m: "map_of kvs' ''rewritten_reply'' = Some v'" and n: "\<not> is_text v'"
    by simp_all
  have t: "rewrite_reply_try E' cl' request' = Inl (ValidationError [''rewritten_reply''])"
    by (simp add: rewrite_try_answers [OF a] field_or_present [OF m] new_rewrite_failure [OF n])
  from rewrite_reply_Inl [OF t]
  show "returned (rewrite_reply E' cl' request') = Inl (HTTPException 500 ''Error rewriting reply'')"
    and "printed (rewrite_reply E' cl' request') =
         [(''Error in /rewrite_reply:'', ValidationError [''rewritten_reply''])]"
    by simp_all
qed

theorem wrong_typed_fields_fail_the_request_witness:
  "returned (analyze_message (answering (PyDict [(''tasks'', PyList [PyStr ''Call Bob'', PyNone])]))
      a_client a_message) = Inl (HTTPException 500 ''Error analyzing message'') \<and>
   returned (rewrite_reply (answering (PyDict [(''rewritten_reply'', PyNone)]))
      a_client a_rewrite) = Inl (HTTPException 500 ''Error rewriting reply'')"
proof -
  let ?kvs = "[(''tasks'', PyList [PyStr ''Call Bob'', PyNone])]"
  let ?kvs' = "[(''rewritten_reply'', PyNone)]"
  have t: "map_of ?kvs ''tasks'' = Some (PyList [PyStr ''Call Bob'', PyNone])"
    "\<not> list_all is_text [PyStr ''Call Bob'', PyNone]"
    and w: "map_of ?kvs' ''rewritten_reply'' = Some PyNone" "\<not> is_text PyNone"
    by simp_all
  from wrong_typed_fields_fail_the_request
         [where E = "answering (PyDict ?kvs)" and cl = a_client and request = a_message
            and kvs = ?kvs and vs = "[PyStr ''Call Bob'', PyNone]"
            and E' = "answering (PyDict ?kvs')" and cl' = a_client
            and request' = a_rewrite and kvs' = ?kvs' and v' = PyNone]
       answers_answering t w
  show ?thesis
    by blast
qed

text \<open>
  C10. For two rewrite requests with the same \<open>base_reply\<close>, which may differ in
  \<open>style\<close> and \<open>original_message\<close>, and one upstream text answered to both and
  decoded alike, \<open>rewrite_reply\<close> returns the same and prints the same.
\<close>

theorem rewrite_result_ignores_style_and_original_message:
  assumes "base_reply request1 = base_reply request2"
    and "replies_with E1 cl1 (rewrite_args E1 request1) answer"
    and "replies_with E2 cl2 (rewrite_args E2 request2) answer"
    and "json_loads E1 answer = json_loads E2 answer"
  shows "returned (rewrite_reply E1 cl1 request1) = returned (rewrite_reply E2 cl2 request2) \<and>
         printed (rewrite_reply E1 cl1 request1) = printed (rewrite_reply E2 cl2 request2)"
proof -
  have "rewrite_reply_try E1 cl1 request1 = rewrite_reply_try E2 cl2 request2"
    by (simp only: rewrite_try_replies_with [OF assms(2)] rewrite_try_replies_with [OF assms(3)]
          assms(1) assms(4))
  then show ?thesis
    by (simp add: rewrite_reply_def split: sum.splits)
qed

theorem rewrite_result_ignores_style_and_original_message_witness:
  "returned (rewrite_reply (answering (PyDict [(''rewritten_reply'', PyStr ''Got it.'')]))
      a_client a_rewrite) =
   returned (rewrite_reply (answering (PyDict [(''rewritten_reply'', PyStr ''Got it.'')]))
      a_client another_rewrite)"
proof -
  have b: "base_reply a_rewrite = base_reply another_rewrite"
    by (simp add: a_rewrite_def another_rewrite_def)
  from rewrite_result_ignores_style_and_original_message
         [OF b replies_with_answering replies_with_answering refl]
  show ?thesis
    by blast
qed

end
